theory Spec2Isabelle
  imports Complex_Main
begin

section \<open>Cart data model (CartContext.tsx)\<close>

text \<open>
  The variant identity of a cart entry is the triple \<open>productId\<close>, \<open>color\<close>, \<open>size\<close>.
  The payloads of \<open>REMOVE_ITEM\<close> and \<open>UPDATE_QUANTITY\<close> carry exactly these three
  fields, and \<open>CartItem\<close> carries them among others; the source types both arguments of
  \<open>isSameVariant\<close> structurally, which the extensible record reproduces.
  A field of type \<open>string | null\<close> is a \<open>string option\<close> with \<open>None\<close> for \<open>null\<close>.
  The field \<open>size\<close> is named \<open>size_v\<close> and \<open>image\<close> is named \<open>image_v\<close>, since both
  names are constants of HOL.

  Numbers: \<open>quantity\<close> is modelled in the integer fragment of the JavaScript number
  type and \<open>price\<close> in the rational one; \<open>NaN\<close> and the infinities are outside the model.
\<close>

subsection \<open>Addition of numbers\<close>

text \<open>
  A JavaScript number is an IEEE 754 double. On integers, \<open>a + b\<close> is the exact sum
  rounded to the nearest double, a tie going to the even significand. Every integer of
  magnitude up to \<open>2^53\<close> is a double, so the rounding only shows beyond it. A sum whose
  magnitude reaches \<open>2^1024\<close> is \<open>Infinity\<close> in the source and has no value here.
\<close>

definition maxSafe :: int where
  "maxSafe = 9007199254740992"

text \<open>The number of binary digits of a natural number.\<close>

fun bitLength :: "nat \<Rightarrow> nat" where
  "bitLength n = (if n = 0 then 0 else Suc (bitLength (n div 2)))"

declare bitLength.simps [simp del]

text \<open>Rounding to 53 significant binary digits, ties to even.\<close>

definition roundNat :: "nat \<Rightarrow> nat" where
  "roundNat m =
     (let q = 2 ^ (bitLength m - 53); d = m div q; r = m mod q in
      if 2 * r < q then d * q
      else if q < 2 * r then (d + 1) * q
      else if even d then d * q
      else (d + 1) * q)"

definition toDouble :: "int \<Rightarrow> int" where
  "toDouble n = (if n < 0 then - int (roundNat (nat (- n))) else int (roundNat (nat n)))"

definition jsAdd :: "int \<Rightarrow> int \<Rightarrow> int" where
  "jsAdd a b = toDouble (a + b)"


subsection \<open>Line items and actions\<close>

record Variant =
  productId :: string
  color :: "string option"
  size_v :: "string option"

record CartItem = Variant +
  name :: string
  price :: rat
  currency :: string
  image_v :: string
  quantity :: int

datatype CartAction =
    ADD_ITEM CartItem
  | REMOVE_ITEM Variant
  | UPDATE_QUANTITY Variant int
  | CLEAR_CART
  | HYDRATE "CartItem list"

definition isSameVariant :: "'a Variant_scheme \<Rightarrow> 'b Variant_scheme \<Rightarrow> bool" where
  "isSameVariant a b \<longleftrightarrow>
     productId a = productId b \<and> color a = color b \<and> size_v a = size_v b"

text \<open>\<open>Array.prototype.findIndex\<close>: the index of the first element satisfying the
  predicate; JavaScript's \<open>-1\<close> is \<open>None\<close>.\<close>

fun findIndex :: "('a \<Rightarrow> bool) \<Rightarrow> 'a list \<Rightarrow> nat option" where
  "findIndex p [] = None"
| "findIndex p (x # xs) =
     (if p x then Some 0 else map_option Suc (findIndex p xs))"

section \<open>The cart reducer\<close>

fun cartReducer :: "CartItem list \<Rightarrow> CartAction \<Rightarrow> CartItem list" where
  "cartReducer state (ADD_ITEM payload) =
     (case findIndex (\<lambda>item. isSameVariant item payload) state of
        Some existing \<Rightarrow>
          state[existing := (state ! existing)
                  \<lparr>quantity := jsAdd (quantity (state ! existing)) (quantity payload)\<rparr>]
      | None \<Rightarrow> state @ [payload])"
| "cartReducer state (REMOVE_ITEM payload) =
     filter (\<lambda>item. \<not> isSameVariant item payload) state"
| "cartReducer state (UPDATE_QUANTITY payload q) =
     map (\<lambda>item. if isSameVariant item payload
                  then item\<lparr>quantity := max 1 q\<rparr> else item) state"
| "cartReducer state CLEAR_CART = []"
| "cartReducer state (HYDRATE payload) = payload"

text \<open>A cart in which no entry matches the given variant.\<close>

definition absent :: "'a Variant_scheme \<Rightarrow> CartItem list \<Rightarrow> bool" where
  "absent v state = list_all (\<lambda>item. \<not> isSameVariant item v) state"

section \<open>Predicates on carts\<close>



text \<open>The quantity invariant of the data model: every entry has \<open>quantity \<ge> 1\<close>.\<close>

definition quantitiesPositive :: "CartItem list \<Rightarrow> bool" where
  "quantitiesPositive state = list_all (\<lambda>item. 1 \<le> quantity item) state"

text \<open>The identity invariant of the data model: no two entries of the cart are the same
  variant.\<close>

fun uniqueVariants :: "CartItem list \<Rightarrow> bool" where
  "uniqueVariants [] = True"
| "uniqueVariants (item # state) = (absent item state \<and> uniqueVariants state)"

text \<open>An action whose payload, if it is a \<open>HYDRATE\<close>, is itself free of duplicate
  variants; every other action qualifies.\<close>

fun hydratesUnique :: "CartAction \<Rightarrow> bool" where
  "hydratesUnique (HYDRATE payload) = uniqueVariants payload"
| "hydratesUnique _ = True"

text \<open>The variant identity of an entry or payload, as a value.\<close>

definition variantKey :: "'a Variant_scheme \<Rightarrow> string \<times> string option \<times> string option" where
  "variantKey a = (productId a, color a, size_v a)"

section \<open>Checkout handoff (CheckoutButton.tsx, CartDrawer.tsx)\<close>

subsection \<open>The request body\<close>

text \<open>The JSON document that \<open>JSON.stringify\<close> writes for the request: an object is the
  list of its properties in their order.\<close>

datatype json =
    JNull
  | JNum int
  | JStr string
  | JArr "json list"
  | JObj "(string \<times> json) list"

text \<open>All property names of a document, at every nesting level.\<close>

fun allKeys :: "json \<Rightarrow> string list"
  and propertyKeys :: "string \<times> json \<Rightarrow> string list" where
  "allKeys (JArr vs) = concat (map allKeys vs)"
| "allKeys (JObj kvs) = concat (map propertyKeys kvs)"
| "allKeys JNull = []"
| "allKeys (JNum n) = []"
| "allKeys (JStr s) = []"
| "propertyKeys (k, v) = k # allKeys v"

text \<open>A value of type \<open>string | null\<close> in a document.\<close>

fun nullable :: "string option \<Rightarrow> json" where
  "nullable None = JNull"
| "nullable (Some s) = JStr s"

text \<open>A property of an object literal whose value may be \<open>undefined\<close> (\<open>None\<close>):
  \<open>JSON.stringify\<close> leaves such a property out.\<close>

fun property :: "string \<Rightarrow> json option \<Rightarrow> (string \<times> json) list" where
  "property k None = []"
| "property k (Some v) = [(k, v)]"

text \<open>\<open>items.map((item) => ({product_id: ..., color: ..., size: ..., quantity: ...}))\<close>,
  the same expression at both call sites.\<close>

definition checkoutCartItem :: "CartItem \<Rightarrow> json" where
  "checkoutCartItem item = JObj
     [(''product_id'', JStr (productId item)),
      (''color'', nullable (color item)),
      (''size'', nullable (size_v item)),
      (''quantity'', JNum (quantity item))]"

definition cartItems :: "CartItem list \<Rightarrow> json" where
  "cartItems items = JArr (map checkoutCartItem items)"

text \<open>CheckoutButton: \<open>items.length > 0 ? items[0].currency : undefined\<close>.\<close>

fun firstCurrency :: "CartItem list \<Rightarrow> string option" where
  "firstCurrency [] = None"
| "firstCurrency (item # items) = Some (currency item)"

definition checkoutButton_body :: "CartItem list \<Rightarrow> json" where
  "checkoutButton_body items = JObj
     (property ''cart_items'' (Some (cartItems items))
      @ property ''currency'' (map_option JStr (firstCurrency items)))"

text \<open>CartDrawer: \<open>items.length > 0 ? items[0].currency : 'USD'\<close>.\<close>

fun displayCurrency :: "CartItem list \<Rightarrow> string" where
  "displayCurrency [] = ''USD''"
| "displayCurrency (item # items) = currency item"

definition cartDrawer_body :: "CartItem list \<Rightarrow> json" where
  "cartDrawer_body items = JObj
     (property ''cart_items'' (Some (cartItems items))
      @ property ''currency'' (Some (JStr (displayCurrency items))))"

text \<open>Two entries that agree in everything but \<open>name\<close>, \<open>price\<close> and \<open>image\<close>.\<close>

definition sameButDisplay :: "CartItem \<Rightarrow> CartItem \<Rightarrow> bool" where
  "sameButDisplay a b \<longleftrightarrow>
     a\<lparr>name := name b, price := price b, image_v := image_v b\<rparr> = b"

subsection \<open>The response\<close>

text \<open>What a \<open>catch\<close> clause receives: an \<open>Error\<close> with its message, or any other
  value.\<close>

datatype Thrown = ErrorObj string | NonError

text \<open>The outcome of an awaited promise.\<close>

datatype 'a Settled = Rejected Thrown | Fulfilled 'a

text \<open>
  The casts of the source are taken at their word: the body of a response that is not ok
  is \<open>{ error?: string }\<close>, the body of an ok response has a \<open>data\<close> object with the
  optional fields \<open>checkout_url\<close>, \<open>link_id\<close>, \<open>brand_id\<close>. An absent field is \<open>None\<close>.
\<close>

record CheckoutData =
  checkout_url :: "string option"
  link_id :: "string option"
  brand_id :: "string option"

record ResponseBody =
  error :: "string option"
  data :: CheckoutData

text \<open>\<open>bodyJson\<close> is the outcome of \<open>response.json()\<close>.\<close>

record Response =
  status :: nat
  bodyJson :: "ResponseBody Settled"

text \<open>\<open>response.ok\<close>: the status is in the range 200 to 299.\<close>

definition ok :: "Response \<Rightarrow> bool" where
  "ok response \<longleftrightarrow> 200 \<le> status response \<and> status response \<le> 299"

text \<open>JavaScript truthiness of a value of type \<open>string | undefined\<close>: the value if
  it is present and not the empty string. \<open>orElse\<close> is \<open>||\<close> on such a value with a
  string default.\<close>

fun truthy :: "string option \<Rightarrow> string option" where
  "truthy None = None"
| "truthy (Some s) = (if s = [] then None else Some s)"

definition orElse :: "string option \<Rightarrow> string \<Rightarrow> string" where
  "orElse v d = (case truthy v of None \<Rightarrow> d | Some s \<Rightarrow> s)"

text \<open>The decimal digits of a number, as a template literal writes it.\<close>

definition digit :: "nat \<Rightarrow> char" where
  "digit d = ''0123456789'' ! d"

fun showNat :: "nat \<Rightarrow> string" where
  "showNat n =
     (if n < 10 then [digit n] else showNat (n div 10) @ [digit (n mod 10)])"

text \<open>\<open>body.error || `Checkout failed (${response.status})`\<close>, where \<open>body\<close> is
  \<open>await response.json().catch(() => ({}))\<close>.\<close>

definition failureMessage :: "Response \<Rightarrow> string" where
  "failureMessage response =
     orElse (case bodyJson response of Rejected err \<Rightarrow> None | Fulfilled body \<Rightarrow> error body)
       (''Checkout failed ('' @ showNat (status response) @ '')'')"

definition paymentUrl :: "string \<Rightarrow> string \<Rightarrow> string" where
  "paymentUrl brandId linkId =
     ''https://spenspay.spensit.com/tempcheckout/'' @ brandId @ ''/'' @ linkId"

declare showNat.simps [simp del]

subsection \<open>The handlers\<close>

text \<open>
  \<open>handleCheckout\<close> is modelled by the sequence of effects it performs, in program order,
  for a given cart (the \<open>items\<close> of the render whose handler runs) and a given outcome of
  the \<open>fetch\<close> call. \<open>clearCart()\<close> dispatches \<open>CLEAR_CART\<close>; an assignment to
  \<open>window.location.href\<close> is \<open>Navigate\<close>.
\<close>

datatype Effect =
    SetLoading bool
  | SetError "string option"
  | Post string json
  | ClearCart
  | CloseDrawer
  | Navigate string

text \<open>The \<open>catch\<close> clause, the same at both call sites:
  \<open>err instanceof Error ? err.message : 'Something went wrong. Please try again.'\<close>.\<close>

definition thrownMessage :: "Thrown \<Rightarrow> string" where
  "thrownMessage err =
     (case err of
        ErrorObj message \<Rightarrow> message
      | NonError \<Rightarrow> ''Something went wrong. Please try again.'')"

definition catchClause :: "Thrown \<Rightarrow> Effect list" where
  "catchClause err = [SetError (Some (thrownMessage err)), SetLoading False]"

text \<open>A \<open>try\<close> block: the effects it performed, and what it threw, if it threw.\<close>

type_synonym Attempt = "Effect list \<times> Thrown option"

definition tryCatch :: "Attempt \<Rightarrow> Effect list" where
  "tryCatch attempt =
     (case attempt of
        (effects, None) \<Rightarrow> effects
      | (effects, Some err) \<Rightarrow> effects @ catchClause err)"

text \<open>CheckoutButton: \<open>checkout_url\<close> if it is truthy, otherwise the URL built from
  \<open>link_id\<close> and \<open>brand_id\<close> if both are truthy, otherwise an \<open>Error\<close> is thrown.\<close>

definition checkoutButton_redirectUrl :: "CheckoutData \<Rightarrow> Thrown + string" where
  "checkoutButton_redirectUrl d =
     (case truthy (checkout_url d) of
        Some url \<Rightarrow> Inr url
      | None \<Rightarrow>
          (case (truthy (link_id d), truthy (brand_id d)) of
             (Some linkId, Some brandId) \<Rightarrow> Inr (paymentUrl brandId linkId)
           | _ \<Rightarrow> Inl (ErrorObj
               ''No checkout URL or link_id/brand_id returned from the checkout API.'')))"

definition checkoutButton_try :: "CartItem list \<Rightarrow> Response Settled \<Rightarrow> Attempt" where
  "checkoutButton_try items outcome =
     (let request = Post ''/api/checkout'' (checkoutButton_body items) in
      case outcome of
        Rejected err \<Rightarrow> ([request], Some err)
      | Fulfilled response \<Rightarrow>
          if \<not> ok response then ([request], Some (ErrorObj (failureMessage response)))
          else (case bodyJson response of
              Rejected err \<Rightarrow> ([request], Some err)
            | Fulfilled result \<Rightarrow>
                (case checkoutButton_redirectUrl (data result) of
                   Inl err \<Rightarrow> ([request], Some err)
                 | Inr redirectUrl \<Rightarrow> ([request, ClearCart, Navigate redirectUrl], None))))"

definition checkoutButton_handleCheckout :: "CartItem list \<Rightarrow> Response Settled \<Rightarrow> Effect list" where
  "checkoutButton_handleCheckout items outcome =
     [SetLoading True, SetError None] @ tryCatch (checkoutButton_try items outcome)"

text \<open>CartDrawer: \<open>link_id\<close> and \<open>brand_id\<close> are both required; \<open>checkout_url\<close> is not
  read.\<close>

definition cartDrawer_redirectUrl :: "CheckoutData \<Rightarrow> Thrown + string" where
  "cartDrawer_redirectUrl d =
     (case truthy (link_id d) of
        None \<Rightarrow> Inl (ErrorObj ''No link_id returned from the checkout API.'')
      | Some linkId \<Rightarrow>
          (case truthy (brand_id d) of
             None \<Rightarrow> Inl (ErrorObj ''No brand_id returned from the checkout API.'')
           | Some brandId \<Rightarrow> Inr (paymentUrl brandId linkId)))"

definition cartDrawer_try :: "CartItem list \<Rightarrow> Response Settled \<Rightarrow> Attempt" where
  "cartDrawer_try items outcome =
     (let request = Post ''/api/checkout'' (cartDrawer_body items) in
      case outcome of
        Rejected err \<Rightarrow> ([request], Some err)
      | Fulfilled response \<Rightarrow>
          if \<not> ok response then ([request], Some (ErrorObj (failureMessage response)))
          else (case bodyJson response of
              Rejected err \<Rightarrow> ([request], Some err)
            | Fulfilled result \<Rightarrow>
                (case cartDrawer_redirectUrl (data result) of
                   Inl err \<Rightarrow> ([request], Some err)
                 | Inr redirectUrl \<Rightarrow>
                     ([request, ClearCart, CloseDrawer, Navigate redirectUrl], None))))"

definition cartDrawer_handleCheckout :: "CartItem list \<Rightarrow> Response Settled \<Rightarrow> Effect list" where
  "cartDrawer_handleCheckout items outcome =
     [SetLoading True, SetError None] @ tryCatch (cartDrawer_try items outcome)"

subsection \<open>What a run of the handler leaves behind\<close>

text \<open>The URL the handler navigates to, if it navigates.\<close>

fun navigated :: "Effect list \<Rightarrow> string option" where
  "navigated [] = None"
| "navigated (Navigate url # effects) = Some url"
| "navigated (effect # effects) = navigated effects"

text \<open>The request bodies the handler posts.\<close>

fun posted :: "Effect list \<Rightarrow> json list" where
  "posted [] = []"
| "posted (Post url body # effects) = body # posted effects"
| "posted (effect # effects) = posted effects"

text \<open>The error state of the component after the handler: the last \<open>setError\<close> wins.\<close>

fun surfaced :: "string option \<Rightarrow> Effect list \<Rightarrow> string option" where
  "surfaced current [] = current"
| "surfaced current (SetError e # effects) = surfaced e effects"
| "surfaced current (effect # effects) = surfaced current effects"

text \<open>The cart after the reducer has processed what the handler dispatched.\<close>

fun cartAfter :: "CartItem list \<Rightarrow> Effect list \<Rightarrow> CartItem list" where
  "cartAfter state [] = state"
| "cartAfter state (ClearCart # effects) = cartAfter (cartReducer state CLEAR_CART) effects"
| "cartAfter state (effect # effects) = cartAfter state effects"

subsection \<open>The redirect rule and the error rule of the specification\<close>

text \<open>The resolution order in the words of the specification: \<open>checkout_url\<close> if present,
  otherwise the URL built from \<open>brand_id\<close> and \<open>link_id\<close> if both are present, otherwise
  none.\<close>

definition specRedirect :: "CheckoutData \<Rightarrow> string option" where
  "specRedirect d =
     (case checkout_url d of
        Some url \<Rightarrow> Some url
      | None \<Rightarrow>
          (case (link_id d, brand_id d) of
             (Some linkId, Some brandId) \<Rightarrow> Some (paymentUrl brandId linkId)
           | _ \<Rightarrow> None))"


subsection \<open>Keys of the request body\<close>

text \<open>The property names of an object at its top level.\<close>

fun topKeys :: "json \<Rightarrow> string list" where
  "topKeys (JObj kvs) = map fst kvs"
| "topKeys _ = []"

text \<open>The keys the client must never send.\<close>

definition forbiddenKeys :: "string list" where
  "forbiddenKeys = [''price'', ''subtotal'', ''total_price'', ''vat'']"

text \<open>The keys the client sends.\<close>

definition requestKeys :: "string list" where
  "requestKeys = [''cart_items'', ''currency'', ''product_id'', ''color'', ''size'', ''quantity'']"

text \<open>The response data with every empty string taken as an absent field.\<close>

definition truthyData :: "CheckoutData \<Rightarrow> CheckoutData" where
  "truthyData d =
     \<lparr>checkout_url = truthy (checkout_url d),
      link_id = truthy (link_id d),
      brand_id = truthy (brand_id d)\<rparr>"

text \<open>An ok response with a readable body.\<close>

definition okResponse :: "nat \<Rightarrow> string option \<Rightarrow> CheckoutData \<Rightarrow> Response Settled" where
  "okResponse code e d =
     Fulfilled \<lparr>status = code, bodyJson = Fulfilled \<lparr>error = e, data = d\<rparr>\<rparr>"

section \<open>Persistent store (CartContext.tsx)\<close>

text \<open>
  \<open>localStorage\<close> is a store of strings under string keys. Any access throws when the
  storage is not accessible (server-side rendering, private browsing), and \<open>setItem\<close>
  throws when the value does not fit; \<open>quota\<close> is the longest value the store accepts.
  A call either throws or returns.
\<close>

datatype 'a Completion = Throws | Returns 'a

record LocalStorage =
  slots :: "string \<rightharpoonup> string"
  accessible :: bool
  quota :: nat

text \<open>\<open>getItem\<close> returns \<open>null\<close> (\<open>None\<close>) for a key that is not there.\<close>

definition getItem :: "LocalStorage \<Rightarrow> string \<Rightarrow> string option Completion" where
  "getItem ls k = (if accessible ls then Returns (slots ls k) else Throws)"


definition STORAGE_KEY :: string where
  "STORAGE_KEY = ''spensit_cart''"

text \<open>
  \<open>JSON.stringify\<close> and \<open>JSON.parse\<close> belong to the platform; the two functions below take
  them as parameters. \<open>stringify\<close> maps a cart to its text, and \<open>parse\<close> maps a text to
  the cart it denotes, typed as the cast \<open>as CartItem[]\<close> has it, or throws.
\<close>

type_synonym Stringify = "CartItem list \<Rightarrow> string"
type_synonym Parse = "string \<Rightarrow> CartItem list Completion"


text \<open>\<open>loadCart\<close>: \<open>if (stored)\<close> is false for \<open>null\<close> and for the empty string.\<close>

definition loadCart :: "Parse \<Rightarrow> LocalStorage \<Rightarrow> CartItem list" where
  "loadCart parse ls =
     (case getItem ls STORAGE_KEY of
        Throws \<Rightarrow> []
      | Returns None \<Rightarrow> []
      | Returns (Some stored) \<Rightarrow>
          if stored \<noteq> [] then
            (case parse stored of
               Throws \<Rightarrow> []
             | Returns items \<Rightarrow> items)
          else [])"

text \<open>The effect that \<open>CartProvider\<close> runs on mount: a loaded list that is not empty
  is dispatched as \<open>HYDRATE\<close>.\<close>

definition rehydrate :: "Parse \<Rightarrow> LocalStorage \<Rightarrow> CartItem list \<Rightarrow> CartItem list" where
  "rehydrate parse ls state =
     (let stored = loadCart parse ls in
      if length stored > 0 then cartReducer state (HYDRATE stored) else state)"



section \<open>Majority currency (CartSummary.tsx)\<close>







subsection \<open>The policy of the specification\<close>





section \<open>Example values\<close>

definition blackM :: Variant where
  "blackM = \<lparr>productId = ''p1'', color = Some ''Black'', size_v = Some ''M''\<rparr>"

definition shirt :: "int \<Rightarrow> CartItem" where
  "shirt q = \<lparr>productId = ''p1'', color = Some ''Black'', size_v = Some ''M'',
     name = ''Shirt'', price = 10, currency = ''USD'', image_v = ''shirt.png'',
     quantity = q\<rparr>"

definition mug :: "int \<Rightarrow> CartItem" where
  "mug q = \<lparr>productId = ''p2'', color = None, size_v = None,
     name = ''Mug'', price = 4, currency = ''EUR'', image_v = ''mug.png'',
     quantity = q\<rparr>"

definition shirtEUR :: "int \<Rightarrow> CartItem" where
  "shirtEUR q = (shirt q)\<lparr>price := 999, currency := ''EUR''\<rparr>"

text \<open>Response data with a ready-made URL only, with the identifier pair only
  (scenario C of the specification), with all three fields, with an empty URL and the
  pair, and with nothing.\<close>

definition urlOnly :: CheckoutData where
  "urlOnly = \<lparr>checkout_url = Some ''https://pay.example/c/1'', link_id = None, brand_id = None\<rparr>"

definition pairOnly :: CheckoutData where
  "pairOnly = \<lparr>checkout_url = None, link_id = Some ''abc'', brand_id = Some ''xyz''\<rparr>"

definition urlAndPair :: CheckoutData where
  "urlAndPair = \<lparr>checkout_url = Some ''https://pay.example/c/1'',
     link_id = Some ''abc'', brand_id = Some ''xyz''\<rparr>"

definition emptyUrlAndPair :: CheckoutData where
  "emptyUrlAndPair = \<lparr>checkout_url = Some [], link_id = Some ''abc'', brand_id = Some ''xyz''\<rparr>"

definition noData :: CheckoutData where
  "noData = \<lparr>checkout_url = None, link_id = None, brand_id = None\<rparr>"




text \<open>
  A codec for the examples: the text of a cart lists the fields of each entry, and the
  parser knows the texts of the carts of the examples and throws on every other text.
\<close>

definition exampleField :: "string option \<Rightarrow> string" where
  "exampleField v = (case v of None \<Rightarrow> ''null'' | Some s \<Rightarrow> s)"

definition exampleEntry :: "CartItem \<Rightarrow> string" where
  "exampleEntry item =
     ''{'' @ productId item @ '','' @ exampleField (color item) @ '',''
       @ exampleField (size_v item) @ '','' @ name item @ '',''
       @ showNat (nat \<lfloor>price item\<rfloor>) @ '','' @ currency item @ '',''
       @ image_v item @ '','' @ showNat (nat (quantity item)) @ ''}''"

definition exampleStringify :: Stringify where
  "exampleStringify items = ''['' @ concat (map exampleEntry items) @ '']''"

definition exampleParse :: Parse where
  "exampleParse text =
     (if text = exampleStringify [shirt 1, mug 2] then Returns [shirt 1, mug 2]
      else if text = exampleStringify [shirt 1, shirt 2] then Returns [shirt 1, shirt 2]
      else if text = exampleStringify [] then Returns []
      else Throws)"

text \<open>An empty storage that works, one that cannot be accessed, one that holds a text
  that does not parse, one that holds the empty text, and one that holds the text of a
  list with a repeated variant.\<close>

definition emptyStorage :: LocalStorage where
  "emptyStorage = \<lparr>slots = Map.empty, accessible = True, quota = 5000000\<rparr>"




definition repeatedStorage :: LocalStorage where
  "repeatedStorage =
     emptyStorage\<lparr>slots := [STORAGE_KEY \<mapsto> exampleStringify [shirt 1, shirt 2]]\<rparr>"

section \<open>Lemmas about addition\<close>

lemma bitLength_le: "m < 2 ^ k \<Longrightarrow> bitLength m \<le> k"
proof (induction m arbitrary: k rule: bitLength.induct)
  case (1 n)
  show ?case
  proof (cases "n = 0")
    case True
    then show ?thesis by (simp add: bitLength.simps)
  next
    case False
    with "1.prems" obtain j where k: "k = Suc j" by (cases k) auto
    with "1.prems" have "n div 2 < 2 ^ j" by auto
    from "1.IH"[OF False this] show ?thesis using False k by (simp add: bitLength.simps[of n])
  qed
qed

lemma bitLength_lower: "0 < m \<Longrightarrow> 2 ^ (bitLength m - 1) \<le> m"
proof (induction m rule: bitLength.induct)
  case (1 n)
  show ?case
  proof (cases "n div 2 = 0")
    case True
    with "1.prems" have "n = 1" by (simp add: div_eq_0_iff)
    then show ?thesis
      by (simp add: bitLength.simps[of "Suc 0"] bitLength.simps[of 0])
  next
    case False
    with "1.IH" "1.prems" have ih: "2 ^ (bitLength (n div 2) - 1) \<le> n div 2" by simp
    have pos: "0 < bitLength (n div 2)" using False by (simp add: bitLength.simps[of "n div 2"])
    have "bitLength n = Suc (bitLength (n div 2))" using "1.prems" by (simp add: bitLength.simps[of n])
    then have "2 ^ (bitLength n - 1) = 2 * 2 ^ (bitLength (n div 2) - 1)"
      using pos by (cases "bitLength (n div 2)") simp_all
    also have "\<dots> \<le> 2 * (n div 2)" using ih by simp
    also have "\<dots> \<le> n" by simp
    finally show ?thesis .
  qed
qed

lemma bitLength_pow: "bitLength (2 ^ k) = Suc k"
  by (induction k) (simp_all add: bitLength.simps[of "2 * _"] bitLength.simps[of "Suc 0"] bitLength.simps[of 0] bitLength.simps[of 1])

lemma roundNat_exact: "int m \<le> maxSafe \<Longrightarrow> roundNat m = m"
proof (cases "m < 2 ^ 53")
  case True
  then have "bitLength m \<le> 53" by (rule bitLength_le)
  then show ?thesis by (simp add: roundNat_def)
next
  case False
  assume "int m \<le> maxSafe"
  with False have m: "m = 2 ^ 53" by (simp add: maxSafe_def)
  have "bitLength m = 54" unfolding m bitLength_pow by simp
  then show ?thesis by (simp add: roundNat_def m)
qed

lemma toDouble_exact: "\<bar>n\<bar> \<le> maxSafe \<Longrightarrow> toDouble n = n"
  by (auto simp: toDouble_def roundNat_exact)

lemma jsAdd_exact: "\<bar>a + b\<bar> \<le> maxSafe \<Longrightarrow> jsAdd a b = a + b"
  by (simp add: jsAdd_def toDouble_exact)

lemma roundNat_pos: "0 < m \<Longrightarrow> 0 < roundNat m"
proof -
  assume m: "0 < m"
  let ?q = "(2::nat) ^ (bitLength m - 53)"
  have "?q \<le> 2 ^ (bitLength m - 1)" by (rule power_increasing) simp_all
  also have "\<dots> \<le> m" using m by (rule bitLength_lower)
  finally have "?q \<le> m" .
  then have "0 < m div ?q" by (simp add: div_greater_zero_iff)
  then show ?thesis by (simp add: roundNat_def Let_def)
qed

lemma jsAdd_pos: "1 \<le> a \<Longrightarrow> 1 \<le> b \<Longrightarrow> 1 \<le> jsAdd a b"
proof -
  assume "1 \<le> a" "1 \<le> b"
  then have "0 < nat (a + b)" by simp
  from roundNat_pos[OF this] \<open>1 \<le> a\<close> \<open>1 \<le> b\<close> show ?thesis
    by (simp add: jsAdd_def toDouble_def)
qed

lemma jsAdd_small [simp]: "\<bar>a + b\<bar> \<le> 9007199254740992 \<Longrightarrow> jsAdd a b = a + b"
  by (simp add: jsAdd_exact maxSafe_def)


section \<open>Lemmas about the reducer\<close>

lemma absent_iff: "absent v state \<longleftrightarrow> (\<forall>item \<in> set state. \<not> isSameVariant item v)"
  by (simp add: absent_def list_all_iff)

lemma filter_absent: "absent v state \<Longrightarrow> filter (\<lambda>item. \<not> isSameVariant item v) state = state"
  by (simp add: absent_iff)

lemma map_absent:
  "absent v state \<Longrightarrow>
   map (\<lambda>item. if isSameVariant item v then f item else item) state = state"
  by (induction state) (simp_all add: absent_def)

lemma findIndex_None: "findIndex p xs = None \<longleftrightarrow> list_all (\<lambda>x. \<not> p x) xs"
  by (induction xs) auto








lemma findIndex_Some: "findIndex p xs = Some i \<Longrightarrow> i < length xs \<and> p (xs ! i)"
  by (induction xs arbitrary: i) (auto split: if_splits)

lemma list_all_update:
  "list_all P xs \<Longrightarrow> P y \<Longrightarrow> list_all P (xs[i := y])"
  by (induction xs arbitrary: i) (auto split: nat.splits)

lemma add_keeps_floor:
  assumes "quantitiesPositive state" "1 \<le> quantity p"
  shows "quantitiesPositive (cartReducer state (ADD_ITEM p))"
proof (cases "findIndex (\<lambda>item. isSameVariant item p) state")
  case None
  then show ?thesis using assms by (simp add: quantitiesPositive_def)
next
  case (Some i)
  then have "i < length state" by (simp add: findIndex_Some)
  then have "1 \<le> quantity (state ! i)"
    using assms(1) by (simp add: quantitiesPositive_def list_all_length)
  then have "1 \<le> jsAdd (quantity (state ! i)) (quantity p)"
    using assms(2) by (rule jsAdd_pos)
  then show ?thesis using assms Some
    by (simp add: quantitiesPositive_def list_all_update)
qed

lemma isSameVariant_key: "isSameVariant a b \<longleftrightarrow> variantKey a = variantKey b"
  by (simp add: isSameVariant_def variantKey_def)

lemma absent_key: "absent v state \<longleftrightarrow> variantKey v \<notin> set (map variantKey state)"
  by (induction state) (auto simp: absent_def isSameVariant_key)

lemma unique_distinct: "uniqueVariants state \<longleftrightarrow> distinct (map variantKey state)"
  by (induction state) (simp_all add: absent_key)

lemma unique_nth:
  "uniqueVariants state \<longleftrightarrow>
   (\<forall>i < length state. \<forall>j < length state. isSameVariant (state ! i) (state ! j) \<longrightarrow> i = j)"
  unfolding unique_distinct isSameVariant_key distinct_conv_nth
  by (auto simp: nth_map)

lemma key_quantity_update [simp]: "variantKey (item\<lparr>quantity := q\<rparr>) = variantKey item"
  by (simp add: variantKey_def)

lemma reducer_unique:
  assumes "uniqueVariants state" "hydratesUnique a"
  shows "uniqueVariants (cartReducer state a)"
proof (cases a)
  case (ADD_ITEM p)
  show ?thesis
  proof (cases "findIndex (\<lambda>item. isSameVariant item p) state")
    case None
    then have "absent p state" by (simp add: findIndex_None absent_def)
    then show ?thesis using assms(1) ADD_ITEM None
      by (simp add: unique_distinct absent_key)
  next
    case (Some i)
    then have i: "i < length state" by (simp add: findIndex_Some)
    have "map variantKey
        (state[i := (state ! i)\<lparr>quantity := jsAdd (quantity (state ! i)) (quantity p)\<rparr>])
        = map variantKey state"
      using i by (simp add: map_update list_update_same_conv)
    then show ?thesis using assms(1) ADD_ITEM Some by (simp add: unique_distinct)
  qed
next
  case (REMOVE_ITEM v)
  then show ?thesis using assms(1) by (simp add: unique_distinct distinct_map_filter)
next
  case (UPDATE_QUANTITY v q)
  have "map variantKey (cartReducer state (UPDATE_QUANTITY v q)) = map variantKey state"
    by (induction state) simp_all
  then show ?thesis using assms(1) UPDATE_QUANTITY by (simp only: unique_distinct)
next
  case CLEAR_CART
  then show ?thesis by simp
next
  case (HYDRATE ps)
  then show ?thesis using assms(2) by simp
qed

section \<open>Lemmas about the checkout handoff\<close>

lemma allKeys_nullable [simp]: "allKeys (nullable c) = []"
  by (cases c) simp_all

lemma allKeys_checkoutCartItem:
  "allKeys (checkoutCartItem item) = [''product_id'', ''color'', ''size'', ''quantity'']"
  by (simp add: checkoutCartItem_def)

lemma requestKeys_mem:
  "''cart_items'' \<in> set requestKeys" "''currency'' \<in> set requestKeys"
  "''product_id'' \<in> set requestKeys" "''color'' \<in> set requestKeys"
  "''size'' \<in> set requestKeys" "''quantity'' \<in> set requestKeys"
  by (simp_all add: requestKeys_def)

lemma allKeys_cartItems: "set (allKeys (cartItems items)) \<subseteq> set requestKeys"
  by (induction items)
     (simp_all add: cartItems_def allKeys_checkoutCartItem requestKeys_mem)

lemma allKeys_button: "set (allKeys (checkoutButton_body items)) \<subseteq> set requestKeys"
  using allKeys_cartItems[of items]
  by (cases items) (simp_all add: checkoutButton_body_def requestKeys_mem)

lemma allKeys_drawer: "set (allKeys (cartDrawer_body items)) \<subseteq> set requestKeys"
  using allKeys_cartItems[of items]
  by (simp add: cartDrawer_body_def requestKeys_mem)

lemma not_forbidden: "set requestKeys \<inter> set forbiddenKeys = {}"
  by (simp add: forbiddenKeys_def requestKeys_def)

lemma sameButDisplay_fields:
  "sameButDisplay a b \<Longrightarrow>
   productId a = productId b \<and> color a = color b \<and> size_v a = size_v b
   \<and> quantity a = quantity b \<and> currency a = currency b"
  unfolding sameButDisplay_def
  by (cases a, cases b) auto

lemma cartItems_low:
  "list_all2 sameButDisplay xs ys \<Longrightarrow> cartItems xs = cartItems ys"
  unfolding cartItems_def
  by (induction rule: list_all2_induct)
     (auto dest!: sameButDisplay_fields simp: checkoutCartItem_def)

lemma firstCurrency_low:
  "list_all2 sameButDisplay xs ys \<Longrightarrow> firstCurrency xs = firstCurrency ys"
  by (cases xs; cases ys) (auto dest!: sameButDisplay_fields)

lemma displayCurrency_low:
  "list_all2 sameButDisplay xs ys \<Longrightarrow> displayCurrency xs = displayCurrency ys"
  by (cases xs; cases ys) (auto dest!: sameButDisplay_fields)

lemma ok_okResponse:
  "200 \<le> code \<Longrightarrow> code \<le> 299 \<Longrightarrow>
   ok \<lparr>status = code, bodyJson = Fulfilled \<lparr>error = e, data = d\<rparr>\<rparr>"
  by (simp add: ok_def)

lemma button_ok:
  assumes "200 \<le> code" "code \<le> 299"
  shows "checkoutButton_handleCheckout items (okResponse code e d) =
    [SetLoading True, SetError None, Post ''/api/checkout'' (checkoutButton_body items)]
    @ (case checkoutButton_redirectUrl d of
         Inl err \<Rightarrow> catchClause err
       | Inr url \<Rightarrow> [ClearCart, Navigate url])"
  using ok_okResponse[OF assms]
  by (simp add: checkoutButton_handleCheckout_def checkoutButton_try_def okResponse_def
      tryCatch_def Let_def split: sum.splits)

lemma drawer_ok:
  assumes "200 \<le> code" "code \<le> 299"
  shows "cartDrawer_handleCheckout items (okResponse code e d) =
    [SetLoading True, SetError None, Post ''/api/checkout'' (cartDrawer_body items)]
    @ (case cartDrawer_redirectUrl d of
         Inl err \<Rightarrow> catchClause err
       | Inr url \<Rightarrow> [ClearCart, CloseDrawer, Navigate url])"
  using ok_okResponse[OF assms]
  by (simp add: cartDrawer_handleCheckout_def cartDrawer_try_def okResponse_def
      tryCatch_def Let_def split: sum.splits)

lemma button_redirect_spec:
  "checkoutButton_redirectUrl d =
     (case specRedirect (truthyData d) of
        Some url \<Rightarrow> Inr url
      | None \<Rightarrow> Inl (ErrorObj
          ''No checkout URL or link_id/brand_id returned from the checkout API.''))"
  by (simp add: checkoutButton_redirectUrl_def specRedirect_def truthyData_def
      split: option.splits)

lemma drawer_redirect_spec:
  "cartDrawer_redirectUrl d =
     (case specRedirect ((truthyData d)\<lparr>checkout_url := None\<rparr>) of
        Some url \<Rightarrow> Inr url
      | None \<Rightarrow> Inl (ErrorObj
          (if truthy (link_id d) = None then ''No link_id returned from the checkout API.''
           else ''No brand_id returned from the checkout API.'')))"
  by (simp add: cartDrawer_redirectUrl_def specRedirect_def truthyData_def
      split: option.splits)

lemma navigated_catch [simp]: "navigated (catchClause err) = None"
  by (simp add: catchClause_def)

lemma surfaced_catch [simp]: "surfaced cur (catchClause err) = Some (thrownMessage err)"
  by (simp add: catchClause_def)

lemma cartAfter_catch [simp]: "cartAfter state (catchClause err) = state"
  by (simp add: catchClause_def)

lemma posted_catch [simp]: "posted (catchClause err) = []"
  by (simp add: catchClause_def)









section \<open>Lemmas about the majority currency\<close>




















section \<open>Lemmas about the persistent store\<close>




section \<open>Deduplication on add\<close>




section \<open>The quantity floor\<close>

text \<open>
  Claim C2 (as amended). From a cart in which every entry has quantity at least 1,
  \<open>REMOVE_ITEM\<close>, \<open>UPDATE_QUANTITY\<close> (for any requested quantity) and \<open>CLEAR_CART\<close>
  return a cart with the same property; \<open>ADD_ITEM\<close> does so whenever the quantity of its
  payload is at least 1; \<open>HYDRATE\<close> returns its payload as it is, so its result has the
  property exactly when the payload has it.
\<close>

theorem C2_quantity_floor:
  assumes "quantitiesPositive state"
  shows "quantitiesPositive (cartReducer state (REMOVE_ITEM v))
    \<and> quantitiesPositive (cartReducer state (UPDATE_QUANTITY v q))
    \<and> quantitiesPositive (cartReducer state CLEAR_CART)
    \<and> (1 \<le> quantity p \<longrightarrow> quantitiesPositive (cartReducer state (ADD_ITEM p)))
    \<and> (quantitiesPositive (cartReducer state (HYDRATE ps)) \<longleftrightarrow> quantitiesPositive ps)"
proof -
  have "quantitiesPositive (cartReducer state (REMOVE_ITEM v))"
    using assms by (simp add: quantitiesPositive_def list_all_iff)
  moreover have "quantitiesPositive (cartReducer state (UPDATE_QUANTITY v q))"
    using assms by (induction state) (simp_all add: quantitiesPositive_def)
  moreover have "quantitiesPositive (cartReducer state CLEAR_CART)"
    by (simp add: quantitiesPositive_def)
  ultimately show ?thesis using add_keeps_floor[OF assms] by simp
qed

theorem C2_witness:
  "quantitiesPositive [shirt 2, mug 1]
   \<and> quantitiesPositive (cartReducer [shirt 2, mug 1] (UPDATE_QUANTITY blackM (- 3)))
   \<and> quantitiesPositive (cartReducer [shirt 2, mug 1] (ADD_ITEM (shirt 4)))
   \<and> cartReducer [shirt 2, mug 1] (UPDATE_QUANTITY blackM (- 3)) = [shirt 1, mug 1]"
proof -
  have h: "quantitiesPositive [shirt 2, mug 1]"
    by (simp add: quantitiesPositive_def shirt_def mug_def)
  have q: "1 \<le> quantity (shirt 4)" by (simp add: shirt_def)
  from C2_quantity_floor [OF h, of blackM "- 3" "shirt 4"] h q show ?thesis
    by (simp add: shirt_def mug_def blackM_def isSameVariant_def)
qed

text \<open>
  The claim as stated fails: \<open>ADD_ITEM\<close> does not clamp. A payload of quantity \<open>-2\<close> is
  appended as it is to a cart without the variant and is added to the stored quantity of
  a matching entry; \<open>HYDRATE\<close> installs a payload of quantity 0 as it is.
\<close>

theorem C2_counterexample:
  "quantitiesPositive [mug 1]
   \<and> cartReducer [mug 1] (ADD_ITEM (shirt (- 2))) = [mug 1, shirt (- 2)]
   \<and> cartReducer [shirt 1] (ADD_ITEM (shirt (- 2))) = [shirt (- 1)]
   \<and> cartReducer [mug 1] (HYDRATE [shirt 0]) = [shirt 0]
   \<and> \<not> quantitiesPositive [mug 1, shirt (- 2)]
   \<and> \<not> quantitiesPositive [shirt (- 1)]
   \<and> \<not> quantitiesPositive [shirt 0]"
  by (simp add: quantitiesPositive_def isSameVariant_def shirt_def mug_def)

section \<open>Purity of the checkout request\<close>

text \<open>
  Claim C3. For every cart, the request body built by either handler has no top-level key
  other than \<open>cart_items\<close> and \<open>currency\<close>, each of its items has exactly the keys
  \<open>product_id\<close>, \<open>color\<close>, \<open>size\<close> and \<open>quantity\<close>, and no key named \<open>price\<close>,
  \<open>subtotal\<close>, \<open>total_price\<close> or \<open>vat\<close> occurs at any nesting level. Two carts that
  differ only in the \<open>name\<close>, \<open>price\<close> and \<open>image\<close> of their entries yield the same
  \<open>cart_items\<close> and the same request body.
\<close>

theorem C3_payload_purity:
  fixes items items' :: "CartItem list"
  shows "(\<forall>body \<in> {checkoutButton_body items, cartDrawer_body items}.
        set (topKeys body) \<subseteq> {''cart_items'', ''currency''}
      \<and> set (allKeys body) \<inter> set forbiddenKeys = {})
    \<and> (\<forall>item \<in> set items.
        allKeys (checkoutCartItem item) = [''product_id'', ''color'', ''size'', ''quantity''])
    \<and> (list_all2 sameButDisplay items items' \<longrightarrow>
         cartItems items = cartItems items'
       \<and> checkoutButton_body items = checkoutButton_body items'
       \<and> cartDrawer_body items = cartDrawer_body items')"
proof -
  have top: "set (topKeys (checkoutButton_body items)) \<subseteq> {''cart_items'', ''currency''}"
    "set (topKeys (cartDrawer_body items)) \<subseteq> {''cart_items'', ''currency''}"
    by (cases items; simp add: checkoutButton_body_def cartDrawer_body_def)+
  have pure: "set (allKeys (checkoutButton_body items)) \<inter> set forbiddenKeys = {}"
    "set (allKeys (cartDrawer_body items)) \<inter> set forbiddenKeys = {}"
    using allKeys_button[of items] allKeys_drawer[of items] not_forbidden by blast+
  have low: "cartItems items = cartItems items'
       \<and> checkoutButton_body items = checkoutButton_body items'
       \<and> cartDrawer_body items = cartDrawer_body items'"
    if "list_all2 sameButDisplay items items'"
    using cartItems_low[OF that] firstCurrency_low[OF that] displayCurrency_low[OF that]
    by (simp add: checkoutButton_body_def cartDrawer_body_def)
  show ?thesis using top pure low allKeys_checkoutCartItem by blast
qed

theorem C3_witness:
  "checkoutButton_body [shirt 2, mug 1] = JObj
     [(''cart_items'', JArr
        [JObj [(''product_id'', JStr ''p1''), (''color'', JStr ''Black''),
               (''size'', JStr ''M''), (''quantity'', JNum 2)],
         JObj [(''product_id'', JStr ''p2''), (''color'', JNull),
               (''size'', JNull), (''quantity'', JNum 1)]]),
      (''currency'', JStr ''USD'')]
   \<and> cartDrawer_body [shirt 2, mug 1] = checkoutButton_body [shirt 2, mug 1]
   \<and> checkoutButton_body [(shirt 2)\<lparr>name := ''Coat'', price := 1, image_v := ''x''\<rparr>, mug 1]
       = checkoutButton_body [shirt 2, mug 1]
   \<and> set (allKeys (checkoutButton_body [shirt 2, mug 1])) \<inter> set forbiddenKeys = {}"
proof -
  have h: "list_all2 sameButDisplay
      [(shirt 2)\<lparr>name := ''Coat'', price := 1, image_v := ''x''\<rparr>, mug 1] [shirt 2, mug 1]"
    by (simp add: sameButDisplay_def shirt_def)
  have m: "shirt 2 \<in> set [shirt 2, mug 1]" by simp
  from C3_payload_purity
    [of "[(shirt 2)\<lparr>name := ''Coat'', price := 1, image_v := ''x''\<rparr>, mug 1]" "[shirt 2, mug 1]"] h
  have "checkoutButton_body [(shirt 2)\<lparr>name := ''Coat'', price := 1, image_v := ''x''\<rparr>, mug 1]
       = checkoutButton_body [shirt 2, mug 1]" by blast
  moreover from C3_payload_purity [of "[shirt 2, mug 1]" "[]"]
  have "set (allKeys (checkoutButton_body [shirt 2, mug 1])) \<inter> set forbiddenKeys = {}" by blast
  ultimately show ?thesis
    by (simp add: checkoutButton_body_def cartDrawer_body_def cartItems_def
        checkoutCartItem_def shirt_def mug_def)
qed

section \<open>Resolution of the redirect URL\<close>

text \<open>
  Claim C4 (as amended). For every ok response with a readable body, CheckoutButton
  resolves the redirect URL in the order of the specification, a field counting as
  present when it is present and not the empty string: \<open>checkout_url\<close> is used verbatim
  if present; otherwise, if \<open>link_id\<close> and \<open>brand_id\<close> are both present, the URL is
  \<open>https://spenspay.spensit.com/tempcheckout/{brand_id}/{link_id}\<close>; otherwise the attempt
  fails with an error message, no navigation and the cart unchanged. CartDrawer does not
  read \<open>checkout_url\<close>: it builds the same URL when \<open>link_id\<close> and \<open>brand_id\<close> are both
  present, and fails otherwise.
\<close>

theorem C4_redirect_resolution:
  fixes d :: CheckoutData and e :: "string option" and items :: "CartItem list" and code :: nat
    and cur :: "string option"
  assumes "200 \<le> code" "code \<le> 299"
  defines "button \<equiv> checkoutButton_handleCheckout items (okResponse code e d)"
    and "drawer \<equiv> cartDrawer_handleCheckout items (okResponse code e d)"
  shows "navigated button = specRedirect (truthyData d)
    \<and> (\<forall>url. checkout_url d = Some url \<and> url \<noteq> [] \<longrightarrow> navigated button = Some url)
    \<and> (\<forall>linkId brandId.
          truthy (checkout_url d) = None \<and> link_id d = Some linkId \<and> linkId \<noteq> []
          \<and> brand_id d = Some brandId \<and> brandId \<noteq> [] \<longrightarrow>
          navigated button
            = Some (''https://spenspay.spensit.com/tempcheckout/'' @ brandId @ ''/'' @ linkId))
    \<and> (navigated button = None \<longrightarrow>
          surfaced cur button
            = Some ''No checkout URL or link_id/brand_id returned from the checkout API.''
          \<and> cartAfter items button = items)
    \<and> navigated drawer = specRedirect ((truthyData d)\<lparr>checkout_url := None\<rparr>)
    \<and> (\<forall>linkId brandId.
          link_id d = Some linkId \<and> linkId \<noteq> [] \<and> brand_id d = Some brandId \<and> brandId \<noteq> [] \<longrightarrow>
          navigated drawer
            = Some (''https://spenspay.spensit.com/tempcheckout/'' @ brandId @ ''/'' @ linkId))
    \<and> (navigated drawer = None \<longrightarrow>
          surfaced cur drawer \<noteq> None \<and> cartAfter items drawer = items)"
proof -
  have b: "navigated button = specRedirect (truthyData d)"
    unfolding button_def button_ok[OF assms(1,2)] button_redirect_spec
    by (simp split: option.splits)
  have b1: "navigated button = Some url" if "checkout_url d = Some url" "url \<noteq> []" for url
    unfolding b using that by (simp add: specRedirect_def truthyData_def)
  have b2: "navigated button
      = Some (''https://spenspay.spensit.com/tempcheckout/'' @ brandId @ ''/'' @ linkId)"
    if "truthy (checkout_url d) = None" "link_id d = Some linkId" "linkId \<noteq> []"
      "brand_id d = Some brandId" "brandId \<noteq> []" for linkId brandId
    unfolding b using that by (simp add: specRedirect_def truthyData_def paymentUrl_def)
  have b3: "surfaced cur button
        = Some ''No checkout URL or link_id/brand_id returned from the checkout API.''
      \<and> cartAfter items button = items" if "navigated button = None"
    using that unfolding button_def button_ok[OF assms(1,2)] button_redirect_spec
    by (simp add: thrownMessage_def split: option.splits)
  have w: "navigated drawer = specRedirect ((truthyData d)\<lparr>checkout_url := None\<rparr>)"
    unfolding drawer_def drawer_ok[OF assms(1,2)] drawer_redirect_spec
    by (simp split: option.splits)
  have w1: "navigated drawer
      = Some (''https://spenspay.spensit.com/tempcheckout/'' @ brandId @ ''/'' @ linkId)"
    if "link_id d = Some linkId" "linkId \<noteq> []" "brand_id d = Some brandId" "brandId \<noteq> []"
    for linkId brandId
    unfolding w using that by (simp add: specRedirect_def truthyData_def paymentUrl_def)
  have w3: "surfaced cur drawer \<noteq> None \<and> cartAfter items drawer = items"
    if "navigated drawer = None"
    using that unfolding drawer_def drawer_ok[OF assms(1,2)] drawer_redirect_spec
    by (simp split: option.splits)
  from b b1 b2 b3 w w1 w3 show ?thesis by blast
qed

text \<open>Scenario C of the specification is the second and third conjunct.\<close>

theorem C4_witness:
  "navigated (checkoutButton_handleCheckout [shirt 1] (okResponse 200 None urlAndPair))
     = Some ''https://pay.example/c/1''
   \<and> navigated (checkoutButton_handleCheckout [shirt 1] (okResponse 200 None pairOnly))
     = Some ''https://spenspay.spensit.com/tempcheckout/xyz/abc''
   \<and> navigated (cartDrawer_handleCheckout [shirt 1] (okResponse 200 None pairOnly))
     = Some ''https://spenspay.spensit.com/tempcheckout/xyz/abc''
   \<and> navigated (checkoutButton_handleCheckout [shirt 1] (okResponse 200 None noData)) = None
   \<and> navigated (cartDrawer_handleCheckout [shirt 1] (okResponse 200 None noData)) = None"
proof -
  have c: "(200::nat) \<le> 200" "(200::nat) \<le> 299" by simp_all
  from C4_redirect_resolution [OF c, of "[shirt 1]" None urlAndPair]
    C4_redirect_resolution [OF c, of "[shirt 1]" None pairOnly]
    C4_redirect_resolution [OF c, of "[shirt 1]" None noData]
  show ?thesis
    by (simp add: specRedirect_def truthyData_def paymentUrl_def urlAndPair_def pairOnly_def
        noData_def)
qed

text \<open>
  The claim as stated fails at CartDrawer: a response with a \<open>checkout_url\<close> and no
  \<open>link_id\<close> is a failure there, and with all three fields the built URL is used, not
  \<open>checkout_url\<close>. At CheckoutButton a \<open>checkout_url\<close> that is the empty string is
  passed over.
\<close>

theorem C4_counterexample:
  "ok \<lparr>status = 200, bodyJson = Fulfilled \<lparr>error = None, data = urlOnly\<rparr>\<rparr>
   \<and> specRedirect urlOnly = Some ''https://pay.example/c/1''
   \<and> navigated (cartDrawer_handleCheckout [shirt 1] (okResponse 200 None urlOnly)) = None
   \<and> surfaced None (cartDrawer_handleCheckout [shirt 1] (okResponse 200 None urlOnly))
       = Some ''No link_id returned from the checkout API.''
   \<and> specRedirect urlAndPair = Some ''https://pay.example/c/1''
   \<and> navigated (cartDrawer_handleCheckout [shirt 1] (okResponse 200 None urlAndPair))
       = Some ''https://spenspay.spensit.com/tempcheckout/xyz/abc''
   \<and> specRedirect emptyUrlAndPair = Some []
   \<and> navigated (checkoutButton_handleCheckout [shirt 1] (okResponse 200 None emptyUrlAndPair))
       = Some ''https://spenspay.spensit.com/tempcheckout/xyz/abc''"
  by (simp add: ok_def okResponse_def specRedirect_def urlOnly_def urlAndPair_def
      emptyUrlAndPair_def cartDrawer_handleCheckout_def cartDrawer_try_def
      cartDrawer_redirectUrl_def checkoutButton_handleCheckout_def checkoutButton_try_def
      checkoutButton_redirectUrl_def tryCatch_def catchClause_def thrownMessage_def
      paymentUrl_def)

section \<open>Failed checkout attempts\<close>




section \<open>Round trip through the persistent store\<close>




section \<open>Resolution of the majority currency\<close>



section \<open>Uniqueness of variants\<close>

text \<open>
  Claim C9 (as amended). Two entries are the same variant exactly when their
  \<open>productId\<close>, \<open>color\<close> and \<open>size\<close> are equal (\<open>isSameVariant\<close>, with \<open>null\<close> equal
  to \<open>null\<close>). Every state obtained from a cart without duplicate variants, in particular
  from the empty initial cart, by a sequence of reducer actions in which every \<open>HYDRATE\<close>
  payload is itself without duplicate variants, holds at most one entry per variant:
  \<open>ADD_ITEM\<close>, \<open>REMOVE_ITEM\<close>, \<open>UPDATE_QUANTITY\<close> and \<open>CLEAR_CART\<close> preserve uniqueness,
  and \<open>HYDRATE\<close> returns its payload as it is; the effect that rehydrates on mount
  yields a cart without duplicates when the loaded list has none.
\<close>

theorem C9_unique_variants:
  assumes "uniqueVariants state" and "\<forall>a \<in> set actions. hydratesUnique a"
  defines "r \<equiv> foldl cartReducer state actions"
  shows "uniqueVariants r
    \<and> (\<forall>i < length r. \<forall>j < length r. isSameVariant (r ! i) (r ! j) \<longrightarrow> i = j)
    \<and> (\<forall>payload. cartReducer r (HYDRATE payload) = payload)
    \<and> (\<forall>parse ls. uniqueVariants (loadCart parse ls) \<longrightarrow> uniqueVariants (rehydrate parse ls r))"
proof -
  have "uniqueVariants (foldl cartReducer state actions)"
    using assms(1,2)
  proof (induction actions arbitrary: state)
    case Nil
    then show ?case by simp
  next
    case (Cons a actions)
    then show ?case by (simp add: reducer_unique del: cartReducer.simps)
  qed
  then show ?thesis unfolding r_def using unique_nth by (simp add: rehydrate_def Let_def)
qed

theorem C9_witness:
  "uniqueVariants (foldl cartReducer []
      [HYDRATE [shirt 1, mug 2], ADD_ITEM (shirtEUR 2), REMOVE_ITEM blackM, ADD_ITEM (shirt 4)])
   \<and> foldl cartReducer []
      [HYDRATE [shirt 1, mug 2], ADD_ITEM (shirtEUR 2), REMOVE_ITEM blackM, ADD_ITEM (shirt 4)]
     = [mug 2, shirt 4]"
proof -
  have u: "uniqueVariants []" by simp
  have h: "\<forall>a \<in> set [HYDRATE [shirt 1, mug 2], ADD_ITEM (shirtEUR 2), REMOVE_ITEM blackM,
      ADD_ITEM (shirt 4)]. hydratesUnique a"
    by (simp add: absent_def isSameVariant_def shirt_def mug_def)
  from C9_unique_variants [OF u h] show ?thesis
    by (simp add: isSameVariant_def shirt_def mug_def shirtEUR_def blackM_def)
qed

text \<open>
  The claim as stated fails at \<open>HYDRATE\<close>: the reducer installs a payload with two
  entries of one variant as it is, and the effect that rehydrates on mount dispatches
  whatever list the storage holds.
\<close>

theorem C9_counterexample:
  "uniqueVariants []
   \<and> cartReducer [] (HYDRATE [shirt 1, shirt 2]) = [shirt 1, shirt 2]
   \<and> rehydrate exampleParse repeatedStorage [] = [shirt 1, shirt 2]
   \<and> isSameVariant (shirt 1) (shirt 2)
   \<and> shirt 1 \<noteq> shirt 2
   \<and> \<not> uniqueVariants [shirt 1, shirt 2]"
proof -
  have t: "exampleStringify [shirt 1, mug 2] \<noteq> exampleStringify [shirt 1, shirt 2]"
    "exampleStringify [shirt 1, shirt 2] \<noteq> []"
    by (simp_all add: exampleStringify_def exampleEntry_def exampleField_def shirt_def mug_def)
  have "loadCart exampleParse repeatedStorage = [shirt 1, shirt 2]"
    using t by (simp add: loadCart_def getItem_def repeatedStorage_def emptyStorage_def
        exampleParse_def)
  then have "rehydrate exampleParse repeatedStorage [] = [shirt 1, shirt 2]"
    by (simp add: rehydrate_def)
  then show ?thesis by (simp add: absent_def isSameVariant_def shirt_def)
qed

section \<open>Set-quantity and removal\<close>

text \<open>
  Claim C10. For every cart and every \<open>UPDATE_QUANTITY\<close> action the result has the same
  length; at each position an entry matching the action's variant keeps all its fields but
  \<open>quantity\<close>, which becomes \<open>max 1 q\<close> (so exactly \<open>1\<close> for every requested \<open>q \<le> 0\<close>),
  and an entry that does not match is returned unchanged; with no matching entry the list
  is unchanged. \<open>REMOVE_ITEM\<close> is idempotent, and removing an absent variant leaves the
  list unchanged.
\<close>

theorem C10_set_quantity_and_remove:
  fixes state :: "CartItem list" and v :: Variant and q :: int
  defines "r \<equiv> cartReducer state (UPDATE_QUANTITY v q)"
  shows "length r = length state
    \<and> (\<forall>i < length state.
          (isSameVariant (state ! i) v \<longrightarrow>
             r ! i = (state ! i)\<lparr>quantity := max 1 q\<rparr>
             \<and> (q \<le> 0 \<longrightarrow> quantity (r ! i) = 1))
        \<and> (\<not> isSameVariant (state ! i) v \<longrightarrow> r ! i = state ! i))
    \<and> (absent v state \<longrightarrow> r = state)
    \<and> cartReducer (cartReducer state (REMOVE_ITEM v)) (REMOVE_ITEM v)
        = cartReducer state (REMOVE_ITEM v)
    \<and> (absent v state \<longrightarrow> cartReducer state (REMOVE_ITEM v) = state)"
  unfolding r_def by (auto simp: map_absent filter_absent)

theorem C10_witness:
  "cartReducer [shirt 3, mug 2] (UPDATE_QUANTITY blackM (- 4)) = [shirt 1, mug 2]
   \<and> cartReducer [mug 2] (UPDATE_QUANTITY blackM 7) = [mug 2]
   \<and> cartReducer [mug 2] (REMOVE_ITEM blackM) = [mug 2]
   \<and> cartReducer (cartReducer [shirt 3, mug 2] (REMOVE_ITEM blackM)) (REMOVE_ITEM blackM)
       = [mug 2]"
  using C10_set_quantity_and_remove [of "[shirt 3, mug 2]" blackM "- 4"]
    C10_set_quantity_and_remove [of "[mug 2]" blackM 7]
  by (simp add: shirt_def mug_def blackM_def isSameVariant_def absent_def)

end
